theory Spec2Isabelle
  imports Main
begin

section \<open>Generic OAuth2 flow engine: shallow embedding\<close>

text \<open>
  The development embeds two source files of the repository:
  \<^item> the refresh-token client (\<^verbatim>\<open>refreshAccessToken\<close>, file \<^verbatim>\<open>part_001\<close>);
  \<^item> the generic OAuth plugin (\<^verbatim>\<open>getUserInfo\<close>, the provider wrapper's
    \<^verbatim>\<open>refreshAccessToken\<close>, and the endpoints \<^verbatim>\<open>signInWithOAuth2\<close> and
    \<^verbatim>\<open>oAuth2Callback\<close>, file \<^verbatim>\<open>part_002\<close>).

  Conventions.
  \<^item> An optional TypeScript field \<^verbatim>\<open>f?: T\<close> is a field of type \<open>T option\<close>; \<open>None\<close> is
    \<^verbatim>\<open>undefined\<close>.
  \<^item> JavaScript truthiness is written out: an optional string is truthy when it is
    present and not empty, an optional number when it is present and not zero, an
    object whenever it is present.
  \<^item> Everything the code obtains from outside its own file (HTTP, the JWT decoder,
    the URL class, base64, \<^verbatim>\<open>toLowerCase\<close>, the state store, the account
    collaborators, the authorization-URL builder, the code-for-token exchange) is a
    field of the record \<open>env\<close>; the functions below take it as their first argument.
  \<^item> Every function that performs calls to the outside returns, next to its result,
    the list of calls it made, in order.
  \<^item> A \<^verbatim>\<open>Date\<close> is its time value, an integer number of milliseconds.
  \<^item> A JSON value is \<^verbatim>\<open>undefined\<close>, \<^verbatim>\<open>null\<close>, a boolean, an integer or a string; the claims
    of user profiles that the code reads are of these kinds.
  \<^item> A fetch gives data or no data. The callbacks of a configuration (\<^verbatim>\<open>getUserInfo\<close>,
    \<^verbatim>\<open>mapProfileToUser\<close>) and \<^verbatim>\<open>generateState\<close> are total functions. The argument of
    \<open>LogError\<close> is a label of what the logger is given.
\<close>

subsection \<open>JSON values and objects\<close>

datatype jval = JUndefined | JNull | JBool bool | JNum int | JStr string

text \<open>A JavaScript object with string keys; a key bound to \<open>JUndefined\<close> is a key that is
  present with the value \<^verbatim>\<open>undefined\<close>.\<close>

type_synonym obj = "string \<rightharpoonup> jval"

definition getp :: "obj \<Rightarrow> string \<Rightarrow> jval" where
  "getp ob k = (case ob k of None \<Rightarrow> JUndefined | Some v \<Rightarrow> v)"

text \<open>Optional chaining \<^verbatim>\<open>o?.k\<close> on a value that may be \<^verbatim>\<open>null\<close>.\<close>

definition oprop :: "obj option \<Rightarrow> string \<Rightarrow> jval" where
  "oprop ob k = (case ob of None \<Rightarrow> JUndefined | Some m \<Rightarrow> getp m k)"

fun truthy :: "jval \<Rightarrow> bool" where
  "truthy JUndefined = False"
| "truthy JNull = False"
| "truthy (JBool b) = b"
| "truthy (JNum n) = (n \<noteq> 0)"
| "truthy (JStr s) = (s \<noteq> [])"

definition truthy_str :: "string option \<Rightarrow> bool" where
  "truthy_str s = (case s of None \<Rightarrow> False | Some x \<Rightarrow> x \<noteq> [])"

definition truthy_num :: "int option \<Rightarrow> bool" where
  "truthy_num n = (case n of None \<Rightarrow> False | Some x \<Rightarrow> x \<noteq> 0)"

text \<open>A value interpolated into a template literal.\<close>

definition tpl :: "string option \<Rightarrow> string" where
  "tpl s = (case s of None \<Rightarrow> ''undefined'' | Some x \<Rightarrow> x)"

subsection \<open>Strings\<close>

text \<open>\<^verbatim>\<open>s.split(c)\<close> for a one-character separator, and \<^verbatim>\<open>xs.join(sep)\<close>.\<close>

fun split_on :: "char \<Rightarrow> string \<Rightarrow> string list" where
  "split_on c [] = [[]]"
| "split_on c (x # xs) =
     (if x = c then [] # split_on c xs
      else (case split_on c xs of [] \<Rightarrow> [[x]] | p # ps \<Rightarrow> (x # p) # ps))"

fun join_with :: "string \<Rightarrow> string list \<Rightarrow> string" where
  "join_with sep [] = []"
| "join_with sep [x] = x"
| "join_with sep (x # y # ys) = x @ sep @ join_with sep (y # ys)"

subsection \<open>URLSearchParams\<close>

type_synonym searchParams = "(string \<times> string) list"

text \<open>\<^verbatim>\<open>set(name, value)\<close>: the first pair named \<open>name\<close> takes the value and the other pairs
  of that name are removed; without such a pair, the pair is appended.\<close>

fun sp_set :: "searchParams \<Rightarrow> string \<Rightarrow> string \<Rightarrow> searchParams" where
  "sp_set [] k v = [(k, v)]"
| "sp_set ((k', v') # ps) k v =
     (if k' = k then (k, v) # filter (\<lambda>p. fst p \<noteq> k) ps
      else (k', v') # sp_set ps k v)"

text \<open>\<^verbatim>\<open>get(name)\<close>: the value of the first pair named \<open>name\<close>.\<close>

definition sp_get :: "searchParams \<Rightarrow> string \<Rightarrow> string option" where
  "sp_get ps k = map_of ps k"

text \<open>\<^verbatim>\<open>for (const [k, v] of Object.entries(o)) ps.set(k, v)\<close>.\<close>

definition sp_set_all :: "searchParams \<Rightarrow> (string \<times> string) list \<Rightarrow> searchParams" where
  "sp_set_all ps entries = fold (\<lambda>kv acc. sp_set acc (fst kv) (snd kv)) entries ps"

subsection \<open>Tokens, provider options, HTTP\<close>

record OAuth2Tokens =
  tokenType :: "string option"
  accessToken :: "string option"
  refreshToken :: "string option"
  accessTokenExpiresAt :: "int option"
  refreshTokenExpiresAt :: "int option"
  scopes :: "string list option"
  idToken :: "string option"

record ProviderOptions =
  po_clientId :: string
  po_clientSecret :: string
  po_redirectURI :: "string option"

datatype authentication = Basic | Post

record refreshProviderConfig =
  rp_tokenEndpoint :: string
  rp_authentication :: "authentication option"
  rp_extraParams :: "(string \<times> string) list option"

record http_request =
  req_url :: string
  req_method :: string
  req_body :: searchParams
  req_headers :: "string \<rightharpoonup> string"

text \<open>The JSON body of a token endpoint's answer, with the fields the code reads.\<close>

record token_response =
  access_token :: "string option"
  refresh_token :: "string option"
  expires_in :: "int option"
  token_type :: "string option"
  scope :: "string option"
  id_token :: "string option"

record discovery =
  authorization_endpoint :: "string option"
  token_endpoint :: "string option"
  userinfo_endpoint :: "string option"

record url =
  url_base :: string
  url_searchParams :: searchParams

record authorizationURLArgs =
  au_id :: string
  au_options :: ProviderOptions
  au_authorizationEndpoint :: string
  au_state :: string
  au_codeVerifier :: "string option"
  au_scopes :: "string list"
  au_redirectURI :: string

record validateCodeArgs =
  vc_code :: string
  vc_codeVerifier :: "string option"
  vc_redirectURI :: string
  vc_options :: ProviderOptions
  vc_tokenEndpoint :: string

record createAccountArgs =
  ca_userId :: string
  ca_providerId :: string
  ca_accountId :: jval
  ca_accessToken :: "string option"
  ca_refreshToken :: "string option"
  ca_accessTokenExpiresAt :: "int option"
  ca_refreshTokenExpiresAt :: "int option"
  ca_scope :: "string option"

record handleUserInfoArgs =
  hu_userInfo :: obj
  hu_providerId :: string
  hu_accountId :: jval
  hu_tokens :: OAuth2Tokens
  hu_scope :: "string option"
  hu_disableSignUp :: bool

record handleUserInfoResult =
  hr_error :: "string option"
  hr_data :: "(string \<times> string) option"
  hr_isRegister :: bool

record link_target =
  link_email :: string
  link_userId :: string

text \<open>The payload of the state token, as \<^verbatim>\<open>parseState\<close> returns it.\<close>

record flow_state =
  callbackURL :: string
  codeVerifier :: string
  errorURL :: "string option"
  requestSignUp :: "bool option"
  newUserURL :: "string option"
  link :: "link_target option"

subsection \<open>The plugin's configuration and the request contexts\<close>

record GenericOAuthConfig =
  providerId :: string
  discoveryUrl :: "string option"
  authorizationUrl :: "string option"
  tokenUrl :: "string option"
  userInfoUrl :: "string option"
  clientId :: string
  clientSecret :: string
  cfg_scopes :: "string list option"
  redirectURI :: "string option"
  responseType :: "string option"
  prompt :: "string option"
  pkce :: "bool option"
  accessType :: "string option"
  cfg_getUserInfo :: "(OAuth2Tokens \<Rightarrow> obj option) option"
  mapProfileToUser :: "(obj \<Rightarrow> obj) option"
  authorizationUrlParams :: "(string \<times> string) list option"
  disableImplicitSignUp :: "bool option"
  disableSignUp :: "bool option"
  cfg_authentication :: "authentication option"

record GenericOAuthOptions =
  config :: "GenericOAuthConfig list"

text \<open>The body of \<^verbatim>\<open>POST /sign-in/oauth2\<close> and the part of the context it reads.\<close>

record signInCtx =
  si_baseURL :: string
  body_providerId :: string
  body_callbackURL :: "string option"
  body_errorCallbackURL :: "string option"
  body_newUserCallbackURL :: "string option"
  body_disableRedirect :: "bool option"
  body_scopes :: "string list option"
  body_requestSignUp :: "bool option"

record signInJson =
  json_url :: string
  json_redirect :: bool

text \<open>The query and the path parameter of \<^verbatim>\<open>GET /oauth2/callback/:providerId\<close>, and the
  part of the context the handler reads: \<^verbatim>\<open>baseURL\<close>, \<^verbatim>\<open>options.onAPIError?.errorURL\<close> and
  \<^verbatim>\<open>options.account?.accountLinking?.allowDifferentEmails\<close>.\<close>

record callbackCtx =
  query_code :: "string option"
  query_error :: "string option"
  query_error_description :: "string option"
  query_state :: "string option"
  params_providerId :: string
  baseURL :: string
  onAPIError_errorURL :: "string option"
  allowDifferentEmails :: "bool option"

subsection \<open>Outcomes and calls\<close>

text \<open>What a handler throws: a redirect, an \<^verbatim>\<open>APIError\<close> (status and message), or another
  exception that nothing catches. A handler's result is \<open>thrown + 'a\<close>.\<close>

datatype thrown =
    Redirect string
  | APIError string string
  | Uncaught string

text \<open>What a call to the outside gives back: it throws, or it returns a value.\<close>

datatype 'a outcome = Throws string | Gives 'a

datatype call =
    FetchDiscovery string
  | FetchUserInfo string string
  | FetchToken http_request
  | CreateAuthorizationURL authorizationURLArgs
  | ValidateAuthorizationCode validateCodeArgs
  | CustomGetUserInfo OAuth2Tokens
  | CreateAccount createAccountArgs
  | HandleOAuthUserInfo handleUserInfoArgs
  | SetSessionCookie "string \<times> string"
  | LogError string

fun isTokenEndpointCall :: "call \<Rightarrow> bool" where
  "isTokenEndpointCall (ValidateAuthorizationCode a) = True"
| "isTokenEndpointCall (FetchToken r) = True"
| "isTokenEndpointCall c = False"



fun isHttpCall :: "call \<Rightarrow> bool" where
  "isHttpCall (FetchDiscovery u) = True"
| "isHttpCall (FetchUserInfo u a) = True"
| "isHttpCall (FetchToken r) = True"
| "isHttpCall c = False"

subsection \<open>The environment\<close>

text \<open>
  \<^item> \<open>fetchToken\<close>, \<open>fetchDiscovery\<close>, \<open>fetchUserInfo\<close>: \<^verbatim>\<open>betterFetch\<close> on the token
    endpoint (error or data), on a discovery URL and on a userinfo URL with its
    \<^verbatim>\<open>Authorization\<close> header (data, or none when the fetch gave an error).
  \<^item> \<open>decodeJwt\<close>: the decoder of \<^verbatim>\<open>jose\<close>; it throws, or returns the payload (\<open>None\<close> is
    a falsy result, which the code tests for).
  \<^item> \<open>parseURL\<close>, \<open>urlToString\<close>: \<^verbatim>\<open>new URL(s)\<close> (none when it throws) and
    \<^verbatim>\<open>toString\<close>.
  \<^item> \<open>generateState\<close>: the state value and the code verifier.
  \<^item> \<open>parseState\<close>: the consumed flow state, or what \<^verbatim>\<open>parseState\<close> throws.
  \<^item> \<open>createAccount\<close>: whether the adapter returned an account.
  \<^item> \<open>btoa\<close>, \<open>toLowerCase\<close>: the platform's base64 encoder and
    \<^verbatim>\<open>String.prototype.toLowerCase\<close>, which lower-cases every letter of Unicode.
\<close>

record env =
  btoa :: "string \<Rightarrow> string"
  toLowerCase :: "string \<Rightarrow> string"
  fetchToken :: "http_request \<Rightarrow> string + token_response"
  fetchDiscovery :: "string \<Rightarrow> discovery option"
  fetchUserInfo :: "string \<Rightarrow> string \<Rightarrow> obj option"
  decodeJwt :: "string \<Rightarrow> obj option outcome"
  parseURL :: "string \<Rightarrow> url option"
  urlToString :: "url \<Rightarrow> string"
  generateState :: "string \<times> string"
  parseState :: "callbackCtx \<Rightarrow> thrown + flow_state"
  createAuthorizationURL :: "authorizationURLArgs \<Rightarrow> url outcome"
  validateAuthorizationCode :: "validateCodeArgs \<Rightarrow> OAuth2Tokens option outcome"
  createAccount :: "createAccountArgs \<Rightarrow> bool"
  handleOAuthUserInfo :: "handleUserInfoArgs \<Rightarrow> handleUserInfoResult"

subsection \<open>The refresh-token client\<close>

text \<open>Lines 18 to 40 of \<^verbatim>\<open>refreshAccessToken\<close>: the body and the headers of the request.\<close>

definition refreshRequest ::
  "env \<Rightarrow> string \<Rightarrow> ProviderOptions \<Rightarrow> refreshProviderConfig \<Rightarrow> http_request" where
  "refreshRequest w refreshTok options providerConfig =
     (let body0 = sp_set (sp_set [] ''grant_type'' ''refresh_token'')
                         ''refresh_token'' refreshTok;
          headers0 = [''content-type'' \<mapsto> ''application/x-www-form-urlencoded'',
                      ''accept'' \<mapsto> ''application/json''];
          headers1 =
            (if rp_authentication providerConfig = Some Basic
             then headers0(''authorization'' \<mapsto>
                    ''Basic '' @ btoa w (po_clientId options @ '':'' @ po_clientSecret options))
             else headers0);
          body1 =
            (if rp_authentication providerConfig = Some Basic then body0
             else sp_set (sp_set body0 ''client_id'' (po_clientId options))
                         ''client_secret'' (po_clientSecret options));
          body2 =
            (case rp_extraParams providerConfig of
               None \<Rightarrow> body1
             | Some entries \<Rightarrow> sp_set_all body1 entries)
      in \<lparr>req_url = rp_tokenEndpoint providerConfig, req_method = ''POST'',
          req_body = body2, req_headers = headers1\<rparr>)"

text \<open>Lines 58 to 73: the token bundle made from the response; \<open>now\<close> is what
  \<^verbatim>\<open>new Date()\<close> reads when the response is handled.\<close>

definition tokensOfResponse :: "int \<Rightarrow> token_response \<Rightarrow> OAuth2Tokens" where
  "tokensOfResponse now data =
     (let tokens = \<lparr>tokenType = token_type data,
                     accessToken = access_token data,
                     refreshToken = refresh_token data,
                     accessTokenExpiresAt = None,
                     refreshTokenExpiresAt = None,
                     scopes = map_option (split_on CHR '' '') (scope data),
                     idToken = id_token data\<rparr>
      in if truthy_num (expires_in data)
         then tokens\<lparr>accessTokenExpiresAt := Some (now + the (expires_in data) * 1000)\<rparr>
         else tokens)"

text \<open>The whole function: the request is sent; an error of the fetch is thrown.\<close>

definition refreshAccessToken ::
  "env \<Rightarrow> int \<Rightarrow> string \<Rightarrow> ProviderOptions \<Rightarrow> refreshProviderConfig
     \<Rightarrow> (thrown + OAuth2Tokens) \<times> call list" where
  "refreshAccessToken w now refreshTok options providerConfig =
     (let request = refreshRequest w refreshTok options providerConfig
      in case fetchToken w request of
           Inl err \<Rightarrow> (Inl (Uncaught err), [FetchToken request])
         | Inr data \<Rightarrow> (Inr (tokensOfResponse now data), [FetchToken request]))"

subsection \<open>The default user-info extraction\<close>

text \<open>\<^verbatim>\<open>getUserInfo(tokens, finalUserInfoUrl)\<close>. An object literal with a spread at its end,
  \<^verbatim>\<open>{a: x, ...d}\<close>, is the map \<open>[a \<mapsto> x] ++ d\<close>: the keys of \<open>d\<close> win.\<close>

definition userInfoFromEndpoint ::
  "env \<Rightarrow> OAuth2Tokens \<Rightarrow> string option \<Rightarrow> (thrown + obj option) \<times> call list" where
  "userInfoFromEndpoint w tokens finalUserInfoUrl =
     (if \<not> truthy_str finalUserInfoUrl then (Inr None, [])
      else
        (let u = the finalUserInfoUrl;
             authorization = ''Bearer '' @ tpl (accessToken tokens);
             data = fetchUserInfo w u authorization
         in (Inr (Some ([''id'' \<mapsto> oprop data ''sub'',
                         ''emailVerified'' \<mapsto> oprop data ''email_verified'',
                         ''email'' \<mapsto> oprop data ''email'',
                         ''image'' \<mapsto> oprop data ''picture'',
                         ''name'' \<mapsto> oprop data ''name'']
                        ++ (case data of None \<Rightarrow> Map.empty | Some d \<Rightarrow> d))),
             [FetchUserInfo u authorization])))"

definition getUserInfo ::
  "env \<Rightarrow> OAuth2Tokens \<Rightarrow> string option \<Rightarrow> (thrown + obj option) \<times> call list" where
  "getUserInfo w tokens finalUserInfoUrl =
     (if truthy_str (idToken tokens) then
        (case decodeJwt w (the (idToken tokens)) of
           Throws e \<Rightarrow> (Inl (Uncaught e), [])
         | Gives None \<Rightarrow> userInfoFromEndpoint w tokens finalUserInfoUrl
         | Gives (Some decoded) \<Rightarrow>
             if truthy (getp decoded ''sub'') \<and> truthy (getp decoded ''email'')
             then (Inr (Some ([''id'' \<mapsto> getp decoded ''sub'',
                               ''emailVerified'' \<mapsto> getp decoded ''email_verified'',
                               ''image'' \<mapsto> getp decoded ''picture'']
                              ++ decoded)), [])
             else userInfoFromEndpoint w tokens finalUserInfoUrl)
      else userInfoFromEndpoint w tokens finalUserInfoUrl)"

subsection \<open>The provider object's refresh operation\<close>

text \<open>\<^verbatim>\<open>refreshAccessToken(refreshToken)\<close> of the provider built in \<^verbatim>\<open>init\<close> from the
  configuration \<open>c\<close> (lines 245 to 274).\<close>

definition providerRefreshAccessToken ::
  "env \<Rightarrow> int \<Rightarrow> GenericOAuthConfig \<Rightarrow> string \<Rightarrow> (thrown + OAuth2Tokens) \<times> call list" where
  "providerRefreshAccessToken w now c refreshTok =
     (let (finalTokenUrl, calls) =
            (if truthy_str (discoveryUrl c) then
               (case fetchDiscovery w (the (discoveryUrl c)) of
                  None \<Rightarrow> (tokenUrl c, [FetchDiscovery (the (discoveryUrl c))])
                | Some d \<Rightarrow> (token_endpoint d, [FetchDiscovery (the (discoveryUrl c))]))
             else (tokenUrl c, []))
      in if \<not> truthy_str finalTokenUrl then
           (Inl (APIError ''BAD_REQUEST''
                   ''Invalid OAuth configuration. Token URL not found.''), calls)
         else
           (let (r, calls2) =
                  refreshAccessToken w now refreshTok
                    \<lparr>po_clientId = clientId c, po_clientSecret = clientSecret c,
                     po_redirectURI = None\<rparr>
                    \<lparr>rp_tokenEndpoint = the finalTokenUrl, rp_authentication = None,
                     rp_extraParams = None\<rparr>
            in (r, calls @ calls2)))"

subsection \<open>Sign-in initiation\<close>

text \<open>Lines 399 to 416: the endpoints after the discovery attempt. A failed fetch is
  logged by the \<^verbatim>\<open>onError\<close> hook.\<close>

definition signInEndpoints ::
  "env \<Rightarrow> GenericOAuthConfig \<Rightarrow> string option \<times> string option \<times> call list" where
  "signInEndpoints w c =
     (if truthy_str (discoveryUrl c) then
        (case fetchDiscovery w (the (discoveryUrl c)) of
           None \<Rightarrow> (authorizationUrl c, tokenUrl c,
                     [FetchDiscovery (the (discoveryUrl c)), LogError ''discovery''])
         | Some d \<Rightarrow> (authorization_endpoint d, token_endpoint d,
                       [FetchDiscovery (the (discoveryUrl c))]))
      else (authorizationUrl c, tokenUrl c, []))"

text \<open>Lines 422 to 430: the additional search parameters are set on the endpoint
  itself; none when \<^verbatim>\<open>new URL\<close> throws.\<close>

definition withAdditionalParams :: "env \<Rightarrow> GenericOAuthConfig \<Rightarrow> string \<Rightarrow> string option" where
  "withAdditionalParams w c finalAuthUrl =
     (case authorizationUrlParams c of
        None \<Rightarrow> Some finalAuthUrl
      | Some entries \<Rightarrow>
          (case parseURL w finalAuthUrl of
             None \<Rightarrow> None
           | Some u \<Rightarrow>
               Some (urlToString w
                 (u\<lparr>url_searchParams := sp_set_all (url_searchParams u) entries\<rparr>))))"

text \<open>Lines 432 to 447: the arguments given to \<^verbatim>\<open>createAuthorizationURL\<close>.\<close>

definition signInURLArgs ::
  "env \<Rightarrow> signInCtx \<Rightarrow> GenericOAuthConfig \<Rightarrow> string \<Rightarrow> authorizationURLArgs" where
  "signInURLArgs w ctx c finalAuthUrl =
     \<lparr>au_id = body_providerId ctx,
      au_options = \<lparr>po_clientId = clientId c, po_clientSecret = clientSecret c,
                    po_redirectURI = redirectURI c\<rparr>,
      au_authorizationEndpoint = finalAuthUrl,
      au_state = fst (generateState w),
      au_codeVerifier = (if pkce c = Some True then Some (snd (generateState w)) else None),
      au_scopes =
        (case body_scopes ctx of
           Some ss \<Rightarrow> ss @ (case cfg_scopes c of Some cs \<Rightarrow> cs | None \<Rightarrow> [])
         | None \<Rightarrow> (case cfg_scopes c of Some cs \<Rightarrow> cs | None \<Rightarrow> [])),
      au_redirectURI = si_baseURL ctx @ ''/oauth2/callback/'' @ body_providerId ctx\<rparr>"

text \<open>Lines 449 to 459: what the handler sets on the URL the builder returned.\<close>

definition applyConfiguredParams :: "GenericOAuthConfig \<Rightarrow> url \<Rightarrow> url" where
  "applyConfiguredParams c authUrl =
     (let u1 = (if truthy_str (responseType c) \<and> responseType c \<noteq> Some ''code''
                then authUrl\<lparr>url_searchParams :=
                       sp_set (url_searchParams authUrl) ''response_type'' (the (responseType c))\<rparr>
                else authUrl);
          u2 = (if truthy_str (prompt c)
                then u1\<lparr>url_searchParams :=
                       sp_set (url_searchParams u1) ''prompt'' (the (prompt c))\<rparr>
                else u1);
          u3 = (if truthy_str (accessType c)
                then u2\<lparr>url_searchParams :=
                       sp_set (url_searchParams u2) ''access_type'' (the (accessType c))\<rparr>
                else u2)
      in u3)"

text \<open>Lines 432 to 465, for an endpoint that has been resolved: the URL object whose
  \<^verbatim>\<open>toString()\<close> the handler returns, or what the builder threw.\<close>

definition signInAuthUrl ::
  "env \<Rightarrow> signInCtx \<Rightarrow> GenericOAuthConfig \<Rightarrow> string \<Rightarrow> url outcome" where
  "signInAuthUrl w ctx c finalAuthUrl =
     (case createAuthorizationURL w (signInURLArgs w ctx c finalAuthUrl) of
        Throws e \<Rightarrow> Throws e
      | Gives authUrl \<Rightarrow> Gives (applyConfiguredParams c authUrl))"

definition signInWithOAuth2 ::
  "env \<Rightarrow> GenericOAuthOptions \<Rightarrow> signInCtx \<Rightarrow> (thrown + signInJson) \<times> call list" where
  "signInWithOAuth2 w options ctx =
     (case find (\<lambda>c. providerId c = body_providerId ctx) (config options) of
        None \<Rightarrow>
          (Inl (APIError ''BAD_REQUEST''
                  (''No config found for provider '' @ body_providerId ctx)), [])
      | Some c \<Rightarrow>
          (let (finalAuthUrl, finalTokenUrl, calls) = signInEndpoints w c
           in if \<not> truthy_str finalAuthUrl \<or> \<not> truthy_str finalTokenUrl then
                (Inl (APIError ''BAD_REQUEST'' ''Invalid OAuth configuration''), calls)
              else
                (case withAdditionalParams w c (the finalAuthUrl) of
                   None \<Rightarrow> (Inl (Uncaught ''TypeError: Invalid URL''), calls)
                 | Some endpoint \<Rightarrow>
                     (case signInAuthUrl w ctx c endpoint of
                        Throws e \<Rightarrow>
                          (Inl (Uncaught e),
                           calls @ [CreateAuthorizationURL (signInURLArgs w ctx c endpoint)])
                      | Gives authUrl \<Rightarrow>
                          (Inr \<lparr>json_url = urlToString w authUrl,
                                json_redirect = (body_disableRedirect ctx \<noteq> Some True)\<rparr>,
                           calls @ [CreateAuthorizationURL
                                      (signInURLArgs w ctx c endpoint)])))))"

subsection \<open>Callback handling\<close>

text \<open>Lines 517 to 519.\<close>

definition defaultErrorURL :: "callbackCtx \<Rightarrow> string" where
  "defaultErrorURL ctx =
     (if truthy_str (onAPIError_errorURL ctx) then the (onAPIError_errorURL ctx)
      else baseURL ctx @ ''/error'')"

text \<open>Lines 549 to 555: \<^verbatim>\<open>redirectOnError\<close> throws a redirect.\<close>

definition redirectOnError :: "callbackCtx \<Rightarrow> flow_state \<Rightarrow> string \<Rightarrow> thrown" where
  "redirectOnError ctx st err =
     Redirect ((if truthy_str (errorURL st) then the (errorURL st)
                else if callbackURL st \<noteq> [] then callbackURL st
                else baseURL ctx @ ''/error'') @ ''?error='' @ err)"

text \<open>Lines 557 to 570: the token and userinfo endpoints after the discovery attempt.\<close>

definition callbackEndpoints ::
  "env \<Rightarrow> GenericOAuthConfig \<Rightarrow> string option \<times> string option \<times> call list" where
  "callbackEndpoints w provider =
     (if truthy_str (discoveryUrl provider) then
        (case fetchDiscovery w (the (discoveryUrl provider)) of
           None \<Rightarrow> (tokenUrl provider, userInfoUrl provider,
                     [FetchDiscovery (the (discoveryUrl provider))])
         | Some d \<Rightarrow> (token_endpoint d, userinfo_endpoint d,
                       [FetchDiscovery (the (discoveryUrl provider))]))
      else (tokenUrl provider, userInfoUrl provider, []))"

definition exchangeArgs ::
  "callbackCtx \<Rightarrow> GenericOAuthConfig \<Rightarrow> flow_state \<Rightarrow> string \<Rightarrow> validateCodeArgs" where
  "exchangeArgs ctx provider st finalTokenUrl =
     \<lparr>vc_code = the (query_code ctx),
      vc_codeVerifier = (if pkce provider = Some True then Some (codeVerifier st) else None),
      vc_redirectURI = baseURL ctx @ ''/oauth2/callback/'' @ providerId provider,
      vc_options = \<lparr>po_clientId = clientId provider,
                    po_clientSecret = clientSecret provider,
                    po_redirectURI = redirectURI provider\<rparr>,
      vc_tokenEndpoint = finalTokenUrl\<rparr>"

text \<open>Lines 572 to 587, the body of the \<^verbatim>\<open>try\<close>: what it throws, or the value assigned to
  \<^verbatim>\<open>tokens\<close>.\<close>

definition exchangeTry ::
  "env \<Rightarrow> callbackCtx \<Rightarrow> GenericOAuthConfig \<Rightarrow> flow_state \<Rightarrow> string option
     \<Rightarrow> (thrown + OAuth2Tokens option) \<times> call list" where
  "exchangeTry w ctx provider st finalTokenUrl =
     (if \<not> truthy_str finalTokenUrl then
        (Inl (APIError ''BAD_REQUEST'' ''Invalid OAuth configuration.''), [])
      else
        (let args = exchangeArgs ctx provider st (the finalTokenUrl)
         in case validateAuthorizationCode w args of
              Throws e \<Rightarrow> (Inl (Uncaught e), [ValidateAuthorizationCode args])
            | Gives t \<Rightarrow> (Inr t, [ValidateAuthorizationCode args])))"

text \<open>The name the \<^verbatim>\<open>catch\<close> block logs.\<close>

fun thrownName :: "thrown \<Rightarrow> string" where
  "thrownName (APIError status msg) = ''APIError''"
| "thrownName (Uncaught e) = e"
| "thrownName (Redirect u) = []"

text \<open>Lines 571 to 602: the \<^verbatim>\<open>try\<close> with its \<^verbatim>\<open>catch\<close>, which logs whatever was thrown and
  throws the redirect of \<^verbatim>\<open>redirectOnError\<close>; then the test of \<^verbatim>\<open>tokens\<close>.\<close>

definition exchangeCode ::
  "env \<Rightarrow> callbackCtx \<Rightarrow> GenericOAuthConfig \<Rightarrow> flow_state \<Rightarrow> string option
     \<Rightarrow> (thrown + OAuth2Tokens) \<times> call list" where
  "exchangeCode w ctx provider st finalTokenUrl =
     (case exchangeTry w ctx provider st finalTokenUrl of
        (Inl t, calls) \<Rightarrow>
          (Inl (redirectOnError ctx st ''oauth_code_verification_failed''),
           calls @ [LogError (thrownName t)])
      | (Inr None, calls) \<Rightarrow>
          (Inl (APIError ''BAD_REQUEST'' ''Invalid OAuth configuration.''), calls)
      | (Inr (Some tokens), calls) \<Rightarrow> (Inr tokens, calls))"

text \<open>Lines 603 to 607.\<close>

definition extractUserInfo ::
  "env \<Rightarrow> GenericOAuthConfig \<Rightarrow> OAuth2Tokens \<Rightarrow> string option
     \<Rightarrow> (thrown + obj option) \<times> call list" where
  "extractUserInfo w provider tokens finalUserInfoUrl =
     (case cfg_getUserInfo provider of
        Some f \<Rightarrow> (Inr (f tokens), [CustomGetUserInfo tokens])
      | None \<Rightarrow> getUserInfo w tokens finalUserInfoUrl)"

text \<open>\<^verbatim>\<open>tokens.scopes?.join(",")\<close>.\<close>

definition joinedScopes :: "OAuth2Tokens \<Rightarrow> string option" where
  "joinedScopes tokens = map_option (join_with '','') (scopes tokens)"

text \<open>Lines 618 to 647: the link branch, for the link target \<open>l\<close>.\<close>

definition linkAccount ::
  "env \<Rightarrow> callbackCtx \<Rightarrow> GenericOAuthConfig \<Rightarrow> flow_state \<Rightarrow> OAuth2Tokens \<Rightarrow> obj
     \<Rightarrow> link_target \<Rightarrow> thrown \<times> call list" where
  "linkAccount w ctx provider st tokens userInfo l =
     (let mismatch =
            (if allowDifferentEmails ctx = Some True then Inr False
             else (case getp userInfo ''email'' of
                     JStr e \<Rightarrow> Inr (link_email l \<noteq> toLowerCase w e)
                   | _ \<Rightarrow> Inl (Uncaught ''TypeError'')))
      in case mismatch of
           Inl t \<Rightarrow> (t, [])
         | Inr True \<Rightarrow> (redirectOnError ctx st ''email_doesn't_match'', [])
         | Inr False \<Rightarrow>
             (let args = \<lparr>ca_userId = link_userId l,
                          ca_providerId = providerId provider,
                          ca_accountId = getp userInfo ''id'',
                          ca_accessToken = accessToken tokens,
                          ca_refreshToken = refreshToken tokens,
                          ca_accessTokenExpiresAt = accessTokenExpiresAt tokens,
                          ca_refreshTokenExpiresAt = refreshTokenExpiresAt tokens,
                          ca_scope = joinedScopes tokens\<rparr>
              in if \<not> createAccount w args
                 then (redirectOnError ctx st ''unable_to_link_account'', [CreateAccount args])
                 else (Redirect (callbackURL st), [CreateAccount args])))"

text \<open>Lines 649 to 685: the sign-in and sign-up branch.\<close>

definition signInOrSignUp ::
  "env \<Rightarrow> callbackCtx \<Rightarrow> GenericOAuthConfig \<Rightarrow> flow_state \<Rightarrow> OAuth2Tokens \<Rightarrow> obj
     \<Rightarrow> obj option \<Rightarrow> thrown \<times> call list" where
  "signInOrSignUp w ctx provider st tokens userInfo mapUser =
     (let args = \<lparr>hu_userInfo =
                    userInfo ++ (case mapUser of None \<Rightarrow> Map.empty | Some m \<Rightarrow> m),
                  hu_providerId = providerId provider,
                  hu_accountId = getp userInfo ''id'',
                  hu_tokens = tokens,
                  hu_scope = joinedScopes tokens,
                  hu_disableSignUp =
                    ((disableImplicitSignUp provider = Some True
                        \<and> requestSignUp st \<noteq> Some True)
                     \<or> disableSignUp provider = Some True)\<rparr>;
          result = handleOAuthUserInfo w args
      in if truthy_str (hr_error result) then
           (redirectOnError ctx st
              (join_with ''_'' (split_on CHR '' '' (the (hr_error result)))),
            [HandleOAuthUserInfo args])
         else
           (case hr_data result of
              None \<Rightarrow> (Uncaught ''TypeError'', [HandleOAuthUserInfo args])
            | Some sessionAndUser \<Rightarrow>
                (Redirect (if hr_isRegister result
                           then (if truthy_str (newUserURL st) then the (newUserURL st)
                                 else callbackURL st)
                           else callbackURL st),
                 [HandleOAuthUserInfo args, SetSessionCookie sessionAndUser])))"

text \<open>Lines 603 to 685: everything after the token exchange.\<close>

definition resolveIdentity ::
  "env \<Rightarrow> callbackCtx \<Rightarrow> GenericOAuthConfig \<Rightarrow> flow_state \<Rightarrow> OAuth2Tokens
     \<Rightarrow> string option \<Rightarrow> thrown \<times> call list" where
  "resolveIdentity w ctx provider st tokens finalUserInfoUrl =
     (case extractUserInfo w provider tokens finalUserInfoUrl of
        (Inl t, calls) \<Rightarrow> (t, calls)
      | (Inr userInfo, calls) \<Rightarrow>
          if \<not> truthy (oprop userInfo ''email'') then
            (redirectOnError ctx st ''email_is_missing'',
             calls @ [LogError ''Unable to get user info''])
          else
            (let mapUser = (case mapProfileToUser provider of
                              Some f \<Rightarrow> Some (f (the userInfo))
                            | None \<Rightarrow> None);
                 (r, calls2) =
                   (case link st of
                      Some l \<Rightarrow> linkAccount w ctx provider st tokens (the userInfo) l
                    | None \<Rightarrow>
                        signInOrSignUp w ctx provider st tokens (the userInfo) mapUser)
             in (r, calls @ calls2)))"

text \<open>Lines 536 to 685: the handler once the provider and the flow state are known.\<close>

definition completeFlow ::
  "env \<Rightarrow> callbackCtx \<Rightarrow> GenericOAuthConfig \<Rightarrow> flow_state \<Rightarrow> thrown \<times> call list" where
  "completeFlow w ctx provider st =
     (let (finalTokenUrl, finalUserInfoUrl, calls) = callbackEndpoints w provider
      in case exchangeCode w ctx provider st finalTokenUrl of
           (Inl t, calls2) \<Rightarrow> (t, calls @ calls2)
         | (Inr tokens, calls2) \<Rightarrow>
             (let (r, calls3) = resolveIdentity w ctx provider st tokens finalUserInfoUrl
              in (r, calls @ calls2 @ calls3)))"

text \<open>The handler of \<^verbatim>\<open>GET /oauth2/callback/:providerId\<close>. It always ends by throwing.\<close>

definition oAuth2Callback ::
  "env \<Rightarrow> GenericOAuthOptions \<Rightarrow> callbackCtx \<Rightarrow> thrown \<times> call list" where
  "oAuth2Callback w options ctx =
     (if truthy_str (query_error ctx) \<or> \<not> truthy_str (query_code ctx) then
        (Redirect (defaultErrorURL ctx @ ''?error=''
                   @ (if truthy_str (query_error ctx) then the (query_error ctx)
                      else ''oAuth_code_missing'')
                   @ ''&error_description='' @ tpl (query_error_description ctx)), [])
      else
        (case find (\<lambda>p. providerId p = params_providerId ctx) (config options) of
           None \<Rightarrow>
             (APIError ''BAD_REQUEST''
                (''No config found for provider '' @ params_providerId ctx), [])
         | Some provider \<Rightarrow>
             (case parseState w ctx of
                Inl t \<Rightarrow> (t, [])
              | Inr st \<Rightarrow> completeFlow w ctx provider st)))"

subsection \<open>Link initiation\<close>

text \<open>Lines 729 to 755 of \<^verbatim>\<open>oAuth2LinkAccount\<close>: the authorization endpoint. Discovery is
  attempted only when no authorization URL is configured.\<close>

definition linkAuthorizationEndpoint ::
  "env \<Rightarrow> GenericOAuthConfig \<Rightarrow> (thrown + string) \<times> call list" where
  "linkAuthorizationEndpoint w provider =
     (if truthy_str (authorizationUrl provider) then
        (Inr (the (authorizationUrl provider)), [])
      else if \<not> truthy_str (discoveryUrl provider) then
        (Inl (APIError ''BAD_REQUEST'' ''Invalid OAuth configuration''), [])
      else
        (case fetchDiscovery w (the (discoveryUrl provider)) of
           None \<Rightarrow>
             (Inl (APIError ''BAD_REQUEST'' ''Invalid OAuth configuration''),
              [FetchDiscovery (the (discoveryUrl provider)), LogError ''discovery''])
         | Some d \<Rightarrow>
             (if truthy_str (authorization_endpoint d)
              then Inr (the (authorization_endpoint d))
              else Inl (APIError ''BAD_REQUEST'' ''Invalid OAuth configuration''),
              [FetchDiscovery (the (discoveryUrl provider))])))"

subsection \<open>A concrete environment\<close>

text \<open>An implementation of the URL class for the concrete runs below: the query is what
  follows the first \<open>?\<close>, its pairs are separated by \<open>&\<close>, a name ends at the first \<open>=\<close>;
  there is no percent-encoding and no fragment.\<close>

fun split_first :: "char \<Rightarrow> string \<Rightarrow> string \<times> string option" where
  "split_first c [] = ([], None)"
| "split_first c (x # xs) =
     (if x = c then ([], Some xs)
      else (case split_first c xs of (a, b) \<Rightarrow> (x # a, b)))"

definition simpleParsePair :: "string \<Rightarrow> string \<times> string" where
  "simpleParsePair s =
     (case split_first CHR ''='' s of (k, None) \<Rightarrow> (k, []) | (k, Some v) \<Rightarrow> (k, v))"

definition simpleParseURL :: "string \<Rightarrow> url option" where
  "simpleParseURL s =
     (if s = [] then None
      else (case split_first CHR ''?'' s of
              (b, None) \<Rightarrow> Some \<lparr>url_base = b, url_searchParams = []\<rparr>
            | (b, Some q) \<Rightarrow>
                Some \<lparr>url_base = b,
                      url_searchParams =
                        map simpleParsePair (filter (\<lambda>p. p \<noteq> []) (split_on CHR ''&'' q))\<rparr>))"

definition simpleUrlToString :: "url \<Rightarrow> string" where
  "simpleUrlToString u =
     url_base u @
     (if url_searchParams u = [] then []
      else ''?'' @ join_with ''&'' (map (\<lambda>p. fst p @ ''='' @ snd p) (url_searchParams u)))"

text \<open>Modelled from the spec: \<^verbatim>\<open>createAuthorizationURL\<close> is imported from
  \<^verbatim>\<open>../../oauth2\<close>, which is not among the sources. Section 4.2 of the specification
  gives its output: the authorization endpoint with the query parameters
  \<^verbatim>\<open>response_type\<close> (default \<^verbatim>\<open>code\<close>), \<^verbatim>\<open>client_id\<close>, \<^verbatim>\<open>redirect_uri\<close>, \<^verbatim>\<open>scope\<close> (space-joined),
  \<^verbatim>\<open>state\<close>, and \<^verbatim>\<open>code_challenge\<close> with its method when a verifier is given; it fails on
  an empty client id or a missing endpoint. \<open>parse\<close> is \<^verbatim>\<open>new URL\<close> and \<open>challenge\<close> the
  transformation of the verifier. It is used by the concrete environment only.\<close>

definition specCreateAuthorizationURL ::
  "(string \<Rightarrow> url option) \<Rightarrow> (string \<Rightarrow> string) \<Rightarrow> authorizationURLArgs \<Rightarrow> url outcome" where
  "specCreateAuthorizationURL parse challenge a =
     (if po_clientId (au_options a) = [] then Throws ''missing client id''
      else
        (case parse (au_authorizationEndpoint a) of
           None \<Rightarrow> Throws ''missing authorization endpoint''
         | Some u \<Rightarrow>
             (let p1 = sp_set (url_searchParams u) ''response_type'' ''code'';
                  p2 = sp_set p1 ''client_id'' (po_clientId (au_options a));
                  p3 = sp_set p2 ''redirect_uri''
                         (if truthy_str (po_redirectURI (au_options a))
                          then the (po_redirectURI (au_options a)) else au_redirectURI a);
                  p4 = sp_set p3 ''scope'' (join_with '' '' (au_scopes a));
                  p5 = sp_set p4 ''state'' (au_state a);
                  p6 = (case au_codeVerifier a of
                          None \<Rightarrow> p5
                        | Some v \<Rightarrow>
                            sp_set (sp_set p5 ''code_challenge'' (challenge v))
                                   ''code_challenge_method'' ''S256'')
              in Gives (u\<lparr>url_searchParams := p6\<rparr>))))"

text \<open>An implementation of \<^verbatim>\<open>toLowerCase\<close> for the concrete runs, whose strings are ASCII:
  the 26 letters are lower-cased and every other character is left as it is.\<close>

definition lower_char :: "char \<Rightarrow> char" where
  "lower_char c =
     (case map_of (zip ''ABCDEFGHIJKLMNOPQRSTUVWXYZ'' ''abcdefghijklmnopqrstuvwxyz'') c of
        None \<Rightarrow> c | Some l \<Rightarrow> l)"

definition asciiToLowerCase :: "string \<Rightarrow> string" where
  "asciiToLowerCase s = map lower_char s"

definition sampleTokens :: OAuth2Tokens where
  "sampleTokens =
     \<lparr>tokenType = Some ''Bearer'', accessToken = Some ''at-1'', refreshToken = Some ''rt-1'',
      accessTokenExpiresAt = None, refreshTokenExpiresAt = None,
      scopes = Some [''openid'', ''email''], idToken = None\<rparr>"

definition sampleState :: flow_state where
  "sampleState =
     \<lparr>callbackURL = ''/dashboard'', codeVerifier = ''verifier-1'', errorURL = None,
      requestSignUp = None, newUserURL = None, link = None\<rparr>"

definition sampleLink :: link_target where
  "sampleLink = \<lparr>link_email = ''bob@example.com'', link_userId = ''user-7''\<rparr>"

definition sampleDiscovery :: discovery where
  "sampleDiscovery =
     \<lparr>authorization_endpoint = Some ''https://idp.example/authorize'',
      token_endpoint = Some ''https://idp.example/token'',
      userinfo_endpoint = Some ''https://idp.example/userinfo''\<rparr>"

definition sampleResponse :: token_response where
  "sampleResponse =
     \<lparr>access_token = Some ''at-2'', refresh_token = Some ''rt-2'',
      expires_in = Some 3600, token_type = Some ''Bearer'',
      scope = Some ''openid email'', id_token = None\<rparr>"

definition sampleProviderOptions :: ProviderOptions where
  "sampleProviderOptions =
     \<lparr>po_clientId = ''client-1'', po_clientSecret = ''secret-1'', po_redirectURI = None\<rparr>"

definition sampleRefreshConfig :: refreshProviderConfig where
  "sampleRefreshConfig =
     \<lparr>rp_tokenEndpoint = ''https://acme.test/token'', rp_authentication = None,
      rp_extraParams = None\<rparr>"

definition sampleEnv :: env where
  "sampleEnv =
     \<lparr>btoa = (\<lambda>s. ''base64('' @ s @ '')''),
      toLowerCase = asciiToLowerCase,
      fetchToken = (\<lambda>r. Inr sampleResponse),
      fetchDiscovery = (\<lambda>u. if u = ''https://idp.example/.well-known/openid-configuration''
                             then Some sampleDiscovery else None),
      fetchUserInfo = (\<lambda>u a.
         if u = ''https://idp.example/userinfo''
         then Some [''sub'' \<mapsto> JStr ''u-1'', ''email'' \<mapsto> JStr ''Alice@Example.com'',
                    ''name'' \<mapsto> JStr ''Alice'']
         else if u = ''https://noemail.example/userinfo''
         then Some [''sub'' \<mapsto> JStr ''u-2'', ''name'' \<mapsto> JStr ''Nemo'']
         else None),
      decodeJwt = (\<lambda>t. if t = ''id-token-1''
                        then Gives (Some [''sub'' \<mapsto> JStr ''u-3'',
                                          ''email'' \<mapsto> JStr ''carol@example.com'',
                                          ''email_verified'' \<mapsto> JBool True])
                        else Throws ''JWTInvalid''),
      parseURL = simpleParseURL,
      urlToString = simpleUrlToString,
      generateState = (''state-1'', ''verifier-1''),
      parseState = (\<lambda>ctx.
         if query_state ctx = Some ''state-1'' then Inr sampleState
         else if query_state ctx = Some ''state-link''
         then Inr (sampleState\<lparr>link := Some sampleLink\<rparr>)
         else Inl (Redirect ''https://app.example/error?error=please_restart_the_process'')),
      createAuthorizationURL = specCreateAuthorizationURL simpleParseURL (\<lambda>v. v),
      validateAuthorizationCode = (\<lambda>a.
         if vc_code a = ''good-code'' then Gives (Some sampleTokens)
         else Throws ''invalid_grant''),
      createAccount = (\<lambda>a. True),
      handleOAuthUserInfo = (\<lambda>a.
         \<lparr>hr_error = None, hr_data = Some (''session-1'', ''user-1''),
          hr_isRegister = False\<rparr>)\<rparr>"

text \<open>Provider configurations: static endpoints only; discovery next to static
  endpoints; no token endpoint at all; Basic authentication; a prompt next to a
  custom \<^verbatim>\<open>prompt\<close> search parameter.\<close>

definition staticProvider :: GenericOAuthConfig where
  "staticProvider =
     \<lparr>providerId = ''acme'', discoveryUrl = None,
      authorizationUrl = Some ''https://acme.test/authorize'',
      tokenUrl = Some ''https://acme.test/token'',
      userInfoUrl = Some ''https://noemail.example/userinfo'',
      clientId = ''client-1'', clientSecret = ''secret-1'', cfg_scopes = None,
      redirectURI = None, responseType = None, prompt = None, pkce = None,
      accessType = None, cfg_getUserInfo = None, mapProfileToUser = None,
      authorizationUrlParams = None, disableImplicitSignUp = None,
      disableSignUp = None, cfg_authentication = None\<rparr>"

definition discoveryProvider :: GenericOAuthConfig where
  "discoveryProvider =
     staticProvider\<lparr>providerId := ''idp'',
       discoveryUrl := Some ''https://idp.example/.well-known/openid-configuration'',
       userInfoUrl := Some ''https://acme.test/userinfo''\<rparr>"

definition brokenProvider :: GenericOAuthConfig where
  "brokenProvider = staticProvider\<lparr>providerId := ''broken'', tokenUrl := None\<rparr>"

definition basicProvider :: GenericOAuthConfig where
  "basicProvider =
     staticProvider\<lparr>providerId := ''basic'', cfg_authentication := Some Basic\<rparr>"

definition promptProvider :: GenericOAuthConfig where
  "promptProvider =
     staticProvider\<lparr>providerId := ''prompted'', prompt := Some ''login'',
       authorizationUrlParams := Some [(''prompt'', ''consent'')]\<rparr>"

definition sampleOptions :: GenericOAuthOptions where
  "sampleOptions =
     \<lparr>config = [staticProvider, discoveryProvider, brokenProvider, basicProvider,
                promptProvider]\<rparr>"

definition sampleSignIn :: signInCtx where
  "sampleSignIn =
     \<lparr>si_baseURL = ''https://app.example/api/auth'', body_providerId = ''acme'',
      body_callbackURL = Some ''/dashboard'', body_errorCallbackURL = None,
      body_newUserCallbackURL = None, body_disableRedirect = None, body_scopes = None,
      body_requestSignUp = None\<rparr>"

definition sampleCallback :: callbackCtx where
  "sampleCallback =
     \<lparr>query_code = Some ''good-code'', query_error = None,
      query_error_description = None, query_state = Some ''state-1'',
      params_providerId = ''acme'', baseURL = ''https://app.example/api/auth'',
      onAPIError_errorURL = None, allowDifferentEmails = None\<rparr>"

section \<open>Properties\<close>

subsection \<open>Search parameters\<close>

lemma map_of_filter_fst:
  "map_of (filter (\<lambda>p. fst p \<noteq> k) ps) k' = (if k' = k then None else map_of ps k')"
  by (induction ps) auto

lemma sp_get_sp_set:
  "sp_get (sp_set ps k v) k' = (if k' = k then Some v else sp_get ps k')"
  by (induction ps) (auto simp: sp_get_def map_of_filter_fst)

subsection \<open>Token expiry of the refresh-token client\<close>

lemma refreshAccessToken_result:
  "fetchToken w (refreshRequest w rt opts pc) = Inr data \<Longrightarrow>
   refreshAccessToken w T rt opts pc =
     (Inr (tokensOfResponse T data), [FetchToken (refreshRequest w rt opts pc)])"
  by (simp add: refreshAccessToken_def Let_def)

text \<open>Claim C8. When the response of the token endpoint carries \<^verbatim>\<open>expires_in = 3600\<close> and
  is handled at time \<open>T\<close> (in milliseconds), \<^verbatim>\<open>refreshAccessToken\<close> returns a token bundle
  whose \<^verbatim>\<open>accessTokenExpiresAt\<close> is \<open>T\<close> plus 3600 seconds, that is \<open>T + 3600 * 1000\<close>
  milliseconds, exactly.\<close>

theorem refresh_expiry_3600:
  assumes "fetchToken w (refreshRequest w rt opts pc) = Inr data"
    and "expires_in data = Some 3600"
  shows "\<exists>tokens. fst (refreshAccessToken w T rt opts pc) = Inr tokens
           \<and> accessTokenExpiresAt tokens = Some (T + 3600 * 1000)"
  using assms by (simp add: refreshAccessToken_result tokensOfResponse_def truthy_num_def)

theorem refresh_expiry_3600_witness:
  "fetchToken sampleEnv
       (refreshRequest sampleEnv ''rt-1'' sampleProviderOptions sampleRefreshConfig)
     = Inr sampleResponse
   \<and> expires_in sampleResponse = Some 3600
   \<and> (\<exists>tokens. fst (refreshAccessToken sampleEnv 1700000000000 ''rt-1''
                      sampleProviderOptions sampleRefreshConfig) = Inr tokens
        \<and> accessTokenExpiresAt tokens = Some 1700003600000)"
proof -
  have h: "fetchToken sampleEnv
       (refreshRequest sampleEnv ''rt-1'' sampleProviderOptions sampleRefreshConfig)
     = Inr sampleResponse"
    by (simp add: sampleEnv_def)
  have e: "expires_in sampleResponse = Some 3600"
    by (simp add: sampleResponse_def)
  show ?thesis
    using h e refresh_expiry_3600 [OF h e, of 1700000000000] by simp
qed

text \<open>Claim C10. When the refresh response omits \<^verbatim>\<open>expires_in\<close> or reports
  \<^verbatim>\<open>expires_in = 0\<close>, \<^verbatim>\<open>refreshAccessToken\<close> returns a token bundle without
  \<^verbatim>\<open>accessTokenExpiresAt\<close>: zero is treated as an absent value.\<close>

theorem refresh_no_expiry:
  assumes "fetchToken w (refreshRequest w rt opts pc) = Inr data"
    and "expires_in data = None \<or> expires_in data = Some 0"
  shows "\<exists>tokens. fst (refreshAccessToken w T rt opts pc) = Inr tokens
           \<and> accessTokenExpiresAt tokens = None"
  using assms by (auto simp: refreshAccessToken_result tokensOfResponse_def truthy_num_def)

theorem refresh_no_expiry_witness:
  "(\<exists>tokens. fst (refreshAccessToken
        (sampleEnv\<lparr>fetchToken := \<lambda>r. Inr (sampleResponse\<lparr>expires_in := Some 0\<rparr>)\<rparr>)
        1700000000000 ''rt-1'' sampleProviderOptions sampleRefreshConfig) = Inr tokens
      \<and> accessTokenExpiresAt tokens = None)
   \<and> (\<exists>tokens. fst (refreshAccessToken
        (sampleEnv\<lparr>fetchToken := \<lambda>r. Inr (sampleResponse\<lparr>expires_in := None\<rparr>)\<rparr>)
        1700000000000 ''rt-1'' sampleProviderOptions sampleRefreshConfig) = Inr tokens
      \<and> accessTokenExpiresAt tokens = None)"
  using refresh_no_expiry
          [of "sampleEnv\<lparr>fetchToken := \<lambda>r. Inr (sampleResponse\<lparr>expires_in := Some 0\<rparr>)\<rparr>"
              "''rt-1''" sampleProviderOptions sampleRefreshConfig
              "sampleResponse\<lparr>expires_in := Some 0\<rparr>" 1700000000000]
        refresh_no_expiry
          [of "sampleEnv\<lparr>fetchToken := \<lambda>r. Inr (sampleResponse\<lparr>expires_in := None\<rparr>)\<rparr>"
              "''rt-1''" sampleProviderOptions sampleRefreshConfig
              "sampleResponse\<lparr>expires_in := None\<rparr>" 1700000000000]
  by simp

subsection \<open>Identity from the ID token\<close>

text \<open>Claim C3. For a token bundle whose ID token decodes to a payload with a \<^verbatim>\<open>sub\<close> and
  an \<^verbatim>\<open>email\<close> claim (both truthy, as the code tests them), the default extraction
  \<^verbatim>\<open>getUserInfo\<close> returns the identity made from the payload (\<^verbatim>\<open>id\<close>, \<^verbatim>\<open>emailVerified\<close> and
  \<^verbatim>\<open>image\<close> taken from \<^verbatim>\<open>sub\<close>, \<^verbatim>\<open>email_verified\<close> and \<^verbatim>\<open>picture\<close>, then every claim of the
  payload) and makes no call at all, so no HTTP request to the userinfo endpoint,
  whatever that endpoint is.\<close>

theorem idToken_short_circuits:
  assumes "truthy_str (idToken tokens)"
    and "decodeJwt w (the (idToken tokens)) = Gives (Some decoded)"
    and "truthy (getp decoded ''sub'')"
    and "truthy (getp decoded ''email'')"
  shows "getUserInfo w tokens finalUserInfoUrl =
           (Inr (Some ([''id'' \<mapsto> getp decoded ''sub'',
                        ''emailVerified'' \<mapsto> getp decoded ''email_verified'',
                        ''image'' \<mapsto> getp decoded ''picture''] ++ decoded)), [])
         \<and> \<not> list_ex isHttpCall (snd (getUserInfo w tokens finalUserInfoUrl))"
  using assms by (simp add: getUserInfo_def)

theorem idToken_short_circuits_witness:
  "truthy_str (idToken (sampleTokens\<lparr>idToken := Some ''id-token-1''\<rparr>))
   \<and> (\<exists>decoded. decodeJwt sampleEnv ''id-token-1'' = Gives (Some decoded)
         \<and> getp decoded ''sub'' = JStr ''u-3''
         \<and> getp decoded ''email'' = JStr ''carol@example.com'')
   \<and> snd (getUserInfo sampleEnv (sampleTokens\<lparr>idToken := Some ''id-token-1''\<rparr>)
             (Some ''https://idp.example/userinfo'')) = []
   \<and> oprop (projr (fst (getUserInfo sampleEnv
                (sampleTokens\<lparr>idToken := Some ''id-token-1''\<rparr>)
                (Some ''https://idp.example/userinfo'')))) ''email''
       = JStr ''carol@example.com''
   \<and> oprop (projr (fst (getUserInfo sampleEnv
                (sampleTokens\<lparr>idToken := Some ''id-token-1''\<rparr>)
                (Some ''https://idp.example/userinfo'')))) ''id''
       = JStr ''u-3''"
proof -
  let ?d = "[''sub'' \<mapsto> JStr ''u-3'', ''email'' \<mapsto> JStr ''carol@example.com'',
             ''email_verified'' \<mapsto> JBool True]"
  let ?t = "sampleTokens\<lparr>idToken := Some ''id-token-1''\<rparr>"
  have h1: "truthy_str (idToken ?t)" by (simp add: truthy_str_def)
  have h2: "decodeJwt sampleEnv (the (idToken ?t)) = Gives (Some ?d)"
    by (simp add: sampleEnv_def)
  have h3: "truthy (getp ?d ''sub'')" by (simp add: getp_def)
  have h4: "truthy (getp ?d ''email'')" by (simp add: getp_def)
  show ?thesis
    using h1 h2
      idToken_short_circuits [OF h1 h2 h3 h4, of "Some ''https://idp.example/userinfo''"]
    by (simp add: getp_def oprop_def)
qed

subsection \<open>Callback: provider error or missing code\<close>

text \<open>Claim C9. When the query of the callback carries an \<^verbatim>\<open>error\<close> parameter or lacks a
  \<^verbatim>\<open>code\<close> parameter (a parameter counts as carried when it is truthy, as the code
  tests it), the handler throws a redirect to the default error URL followed by
  \<^verbatim>\<open>?error=\<close>, the error code or \<^verbatim>\<open>oAuth_code_missing\<close>, \<^verbatim>\<open>&error_description=\<close> and the
  description; it makes no call at all, so none to the token endpoint.\<close>

theorem callback_error_redirect:
  assumes "truthy_str (query_error ctx) \<or> \<not> truthy_str (query_code ctx)"
  shows "oAuth2Callback w options ctx =
           (Redirect (defaultErrorURL ctx @ ''?error=''
                      @ (if truthy_str (query_error ctx) then the (query_error ctx)
                         else ''oAuth_code_missing'')
                      @ ''&error_description='' @ tpl (query_error_description ctx)), [])
         \<and> \<not> list_ex isTokenEndpointCall (snd (oAuth2Callback w options ctx))"
  using assms by (auto simp: oAuth2Callback_def)

theorem callback_error_redirect_witness:
  "truthy_str (query_error (sampleCallback\<lparr>query_error := Some ''access_denied'',
      query_error_description := Some ''denied''\<rparr>))
   \<and> oAuth2Callback sampleEnv sampleOptions
        (sampleCallback\<lparr>query_error := Some ''access_denied'',
           query_error_description := Some ''denied''\<rparr>)
      = (Redirect
           ''https://app.example/api/auth/error?error=access_denied&error_description=denied'',
         [])
   \<and> \<not> truthy_str (query_code (sampleCallback\<lparr>query_code := None\<rparr>))
   \<and> oAuth2Callback sampleEnv sampleOptions (sampleCallback\<lparr>query_code := None\<rparr>)
      = (Redirect
           ''https://app.example/api/auth/error?error=oAuth_code_missing&error_description=undefined'',
         [])"
  using callback_error_redirect
          [of "sampleCallback\<lparr>query_error := Some ''access_denied'',
                 query_error_description := Some ''denied''\<rparr>" sampleEnv sampleOptions]
        callback_error_redirect
          [of "sampleCallback\<lparr>query_code := None\<rparr>" sampleEnv sampleOptions]
  by (simp add: sampleCallback_def truthy_str_def defaultErrorURL_def tpl_def)

subsection \<open>The endpoints after a successful discovery fetch\<close>



subsection \<open>The calls each step of the callback can make\<close>













subsection \<open>Unfolding sets for the concrete runs\<close>

lemmas model_defs =
  oAuth2Callback_def completeFlow_def resolveIdentity_def signInOrSignUp_def
  linkAccount_def joinedScopes_def extractUserInfo_def exchangeCode_def exchangeTry_def
  exchangeArgs_def callbackEndpoints_def redirectOnError_def defaultErrorURL_def
  signInWithOAuth2_def signInAuthUrl_def applyConfiguredParams_def signInURLArgs_def
  withAdditionalParams_def signInEndpoints_def providerRefreshAccessToken_def
  getUserInfo_def userInfoFromEndpoint_def refreshAccessToken_def tokensOfResponse_def
  refreshRequest_def sp_set_all_def sp_get_def
  truthy_str_def truthy_num_def tpl_def getp_def oprop_def

lemmas sample_defs =
  sampleEnv_def sampleOptions_def sampleCallback_def sampleSignIn_def sampleState_def
  sampleLink_def sampleDiscovery_def sampleTokens_def sampleResponse_def
  staticProvider_def
  discoveryProvider_def brokenProvider_def basicProvider_def promptProvider_def
  specCreateAuthorizationURL_def simpleParseURL_def simpleUrlToString_def
  simpleParsePair_def asciiToLowerCase_def lower_char_def

subsection \<open>Discovery overrides the static endpoints\<close>




text \<open>Outside the two handlers of claim C1: link initiation keeps a configured
  authorization URL and does not fetch the discovery document.\<close>

lemma link_initiation_prefers_static:
  "truthy_str (authorizationUrl provider) \<Longrightarrow>
   linkAuthorizationEndpoint w provider = (Inr (the (authorizationUrl provider)), [])"
  by (simp add: linkAuthorizationEndpoint_def)

subsection \<open>Callback: missing email and link flow\<close>




text \<open>Whenever lower-casing a lower-cased string changes nothing, two emails that
  differ even when case is ignored differ for the comparison the link branch makes.\<close>

lemma case_insensitive_mismatch:
  "toLowerCase w (toLowerCase w b) = toLowerCase w b \<Longrightarrow>
   toLowerCase w a \<noteq> toLowerCase w b \<Longrightarrow> a \<noteq> toLowerCase w b"
  by metis



text \<open>The comparison is against the lower-cased email: a link target
  \<^verbatim>\<open>alice@example.com\<close> is linked to the identity \<^verbatim>\<open>Alice@Example.com\<close>.\<close>

lemma link_compares_lower_cased_email:
  "oAuth2Callback
     (sampleEnv\<lparr>parseState := \<lambda>ctx. Inr (sampleState\<lparr>link :=
        Some (sampleLink\<lparr>link_email := ''alice@example.com''\<rparr>)\<rparr>)\<rparr>)
     sampleOptions (sampleCallback\<lparr>params_providerId := ''idp''\<rparr>)
   = (Redirect ''/dashboard'',
      [FetchDiscovery ''https://idp.example/.well-known/openid-configuration'',
       ValidateAuthorizationCode
         \<lparr>vc_code = ''good-code'', vc_codeVerifier = None,
          vc_redirectURI = ''https://app.example/api/auth/oauth2/callback/idp'',
          vc_options = \<lparr>po_clientId = ''client-1'', po_clientSecret = ''secret-1'',
                        po_redirectURI = None\<rparr>,
          vc_tokenEndpoint = ''https://idp.example/token''\<rparr>,
       FetchUserInfo ''https://idp.example/userinfo'' ''Bearer at-1'',
       CreateAccount
         \<lparr>ca_userId = ''user-7'', ca_providerId = ''idp'', ca_accountId = JStr ''u-1'',
          ca_accessToken = Some ''at-1'', ca_refreshToken = Some ''rt-1'',
          ca_accessTokenExpiresAt = None, ca_refreshTokenExpiresAt = None,
          ca_scope = Some ''openid,email''\<rparr>])"
  by (simp add: model_defs sample_defs)

subsection \<open>Callback: no token endpoint\<close>

text \<open>The \<^verbatim>\<open>APIError\<close> for a missing token endpoint is thrown inside the \<^verbatim>\<open>try\<close> block, and
  the \<^verbatim>\<open>catch\<close> block replaces whatever was thrown by a redirect.\<close>

lemma missing_token_endpoint_is_caught:
  "\<not> truthy_str finalTokenUrl \<Longrightarrow>
   exchangeCode w ctx provider st finalTokenUrl
     = (Inl (redirectOnError ctx st ''oauth_code_verification_failed''),
        [LogError ''APIError''])"
  by (simp add: exchangeCode_def exchangeTry_def)

text \<open>Claim C2. The claim is that callback handling without a token endpoint (none
  discovered, none configured) ends with a \<^verbatim>\<open>BAD_REQUEST\<close> error raised to the caller,
  not with a redirect. The code does not do this: whenever the handler reaches the
  exchange and no token endpoint is available after the discovery attempt, it throws
  the redirect of \<^verbatim>\<open>redirectOnError\<close> with the code \<^verbatim>\<open>oauth_code_verification_failed\<close>, and
  not the \<^verbatim>\<open>APIError\<close>. The concrete run is the provider \<open>brokenProvider\<close>, which has no
  token URL and no discovery URL.\<close>

theorem callback_missing_token_endpoint:
  assumes "\<not> truthy_str (query_error ctx)" and "truthy_str (query_code ctx)"
    and "find (\<lambda>p. providerId p = params_providerId ctx) (config options) = Some provider"
    and "parseState w ctx = Inr st"
    and "\<not> truthy_str (fst (callbackEndpoints w provider))"
  shows "fst (oAuth2Callback w options ctx)
           = redirectOnError ctx st ''oauth_code_verification_failed''
     \<and> fst (oAuth2Callback w options ctx)
           \<noteq> APIError ''BAD_REQUEST'' ''Invalid OAuth configuration.''"
proof -
  obtain tu uu cs0 where e0: "callbackEndpoints w provider = (tu, uu, cs0)"
    by (cases "callbackEndpoints w provider") auto
  have "\<not> truthy_str tu" using assms(5) e0 by simp
  note x = missing_token_endpoint_is_caught [OF this, of w ctx provider st]
  have "fst (oAuth2Callback w options ctx)
          = redirectOnError ctx st ''oauth_code_verification_failed''"
    using assms(1-4) e0 x by (simp add: oAuth2Callback_def completeFlow_def)
  then show ?thesis by (simp add: redirectOnError_def)
qed

theorem callback_missing_token_endpoint_witness:
  "tokenUrl brokenProvider = None \<and> discoveryUrl brokenProvider = None
   \<and> oAuth2Callback sampleEnv sampleOptions (sampleCallback\<lparr>params_providerId := ''broken''\<rparr>)
      = (Redirect ''/dashboard?error=oauth_code_verification_failed'',
         [LogError ''APIError''])"
proof -
  let ?ctx = "sampleCallback\<lparr>params_providerId := ''broken''\<rparr>"
  have h1: "\<not> truthy_str (query_error ?ctx)"
    by (simp add: sampleCallback_def truthy_str_def)
  have h2: "truthy_str (query_code ?ctx)"
    by (simp add: sampleCallback_def truthy_str_def)
  have h3: "find (\<lambda>p. providerId p = params_providerId ?ctx) (config sampleOptions)
              = Some brokenProvider"
    by (simp add: sample_defs)
  have h4: "parseState sampleEnv ?ctx = Inr sampleState"
    by (simp add: sample_defs)
  have h5: "\<not> truthy_str (fst (callbackEndpoints sampleEnv brokenProvider))"
    by (simp add: model_defs sample_defs)
  show ?thesis
    using callback_missing_token_endpoint [OF h1 h2 h3 h4 h5]
    by (simp add: model_defs sample_defs)
qed

subsection \<open>Sign-in: custom search parameters\<close>

text \<open>Whatever URL the builder returns, a configured \<^verbatim>\<open>prompt\<close> is set on it afterwards.\<close>

lemma configured_prompt_wins:
  "truthy_str (prompt c) \<Longrightarrow>
   sp_get (url_searchParams (applyConfiguredParams c authUrl)) ''prompt'' = prompt c"
  by (cases "prompt c") (simp_all add: applyConfiguredParams_def Let_def sp_get_sp_set truthy_str_def)

text \<open>Claim C6. The claim is that every key of \<^verbatim>\<open>authorizationUrlParams\<close> is in the final
  authorization URL with its custom value, in place of the value set otherwise for
  that key. The code does not do this: it sets the custom parameters on the endpoint
  before the builder runs, and sets \<^verbatim>\<open>response_type\<close>, \<^verbatim>\<open>prompt\<close> and \<^verbatim>\<open>access_type\<close> from the
  configuration afterwards. So whenever the configuration has a \<^verbatim>\<open>prompt\<close>, the URL
  returned carries that prompt, whatever \<^verbatim>\<open>authorizationUrlParams\<close> holds. The concrete
  run is the provider \<open>promptProvider\<close>, configured with \<^verbatim>\<open>prompt: "login"\<close> and the custom
  parameter \<^verbatim>\<open>prompt=consent\<close>: the URL returned carries \<^verbatim>\<open>prompt=login\<close>.\<close>

theorem custom_prompt_param_overwritten:
  assumes "find (\<lambda>c. providerId c = body_providerId ctx) (config options) = Some c"
    and "truthy_str (prompt c)"
    and "fst (signInWithOAuth2 w options ctx) = Inr j"
  shows "\<exists>authUrl. json_url j = urlToString w authUrl
           \<and> sp_get (url_searchParams authUrl) ''prompt'' = prompt c"
proof -
  obtain au tu cs0 where e0: "signInEndpoints w c = (au, tu, cs0)"
    by (cases "signInEndpoints w c") auto
  from assms(1,3) e0 obtain e u where
      "createAuthorizationURL w (signInURLArgs w ctx c e) = Gives u"
      and "json_url j = urlToString w (applyConfiguredParams c u)"
    by (auto simp: signInWithOAuth2_def signInAuthUrl_def
             split: if_splits option.splits outcome.splits)
  with configured_prompt_wins [OF assms(2)] show ?thesis by blast
qed

theorem custom_prompt_param_overwritten_witness:
  "authorizationUrlParams promptProvider = Some [(''prompt'', ''consent'')]
   \<and> prompt promptProvider = Some ''login''
   \<and> fst (signInWithOAuth2 sampleEnv sampleOptions (sampleSignIn\<lparr>body_providerId := ''prompted''\<rparr>))
      = Inr \<lparr>json_url = ''https://acme.test/authorize?prompt=login&response_type=code&client_id=client-1&redirect_uri=https://app.example/api/auth/oauth2/callback/prompted&scope=&state=state-1'',
             json_redirect = True\<rparr>"
proof -
  let ?ctx = "sampleSignIn\<lparr>body_providerId := ''prompted''\<rparr>"
  let ?j = "projr (fst (signInWithOAuth2 sampleEnv sampleOptions ?ctx))"
  have h1: "find (\<lambda>c. providerId c = body_providerId ?ctx) (config sampleOptions)
              = Some promptProvider"
    by (simp add: sample_defs)
  have h2: "truthy_str (prompt promptProvider)"
    by (simp add: sample_defs truthy_str_def)
  have h3: "fst (signInWithOAuth2 sampleEnv sampleOptions ?ctx) = Inr ?j"
    by (simp add: model_defs sample_defs)
  show ?thesis
    using custom_prompt_param_overwritten [OF h1 h2 h3]
    by (simp add: model_defs sample_defs)
qed

subsection \<open>Refresh: placement of the client credentials\<close>

text \<open>The refresh-token client puts the credentials where its own \<^verbatim>\<open>providerConfig\<close> says;
  the provider object never passes the \<^verbatim>\<open>authentication\<close> of the configuration on.\<close>

lemma refreshRequest_basic:
  "rp_authentication pc = Some Basic \<Longrightarrow> rp_extraParams pc = None \<Longrightarrow>
   req_headers (refreshRequest w rt opts pc) ''authorization''
     = Some (''Basic '' @ btoa w (po_clientId opts @ '':'' @ po_clientSecret opts))
   \<and> sp_get (req_body (refreshRequest w rt opts pc)) ''client_id'' = None
   \<and> sp_get (req_body (refreshRequest w rt opts pc)) ''client_secret'' = None"
  by (simp add: refreshRequest_def Let_def sp_get_def)

lemma refreshRequest_post:
  "rp_authentication pc \<noteq> Some Basic \<Longrightarrow> rp_extraParams pc = None \<Longrightarrow>
   req_headers (refreshRequest w rt opts pc) ''authorization'' = None
   \<and> sp_get (req_body (refreshRequest w rt opts pc)) ''client_id'' = Some (po_clientId opts)
   \<and> sp_get (req_body (refreshRequest w rt opts pc)) ''client_secret''
       = Some (po_clientSecret opts)"
  by (simp add: refreshRequest_def Let_def sp_get_def)

lemma provider_refresh_ignores_authentication:
  "providerRefreshAccessToken w now (c\<lparr>cfg_authentication := a\<rparr>) rt
     = providerRefreshAccessToken w now c rt"
  by (simp add: providerRefreshAccessToken_def split: option.splits)

text \<open>Claim C7. The claim is that the refresh operation of a provider puts the client
  credentials in an HTTP Basic \<^verbatim>\<open>authorization\<close> header when the provider's
  \<^verbatim>\<open>authentication\<close> is \<^verbatim>\<open>"basic"\<close>. The code does not do this: every request the provider's
  \<^verbatim>\<open>refreshAccessToken\<close> sends to the token endpoint has no \<^verbatim>\<open>authorization\<close> header and
  carries \<^verbatim>\<open>client_id\<close> and \<^verbatim>\<open>client_secret\<close> in its body, whatever the \<^verbatim>\<open>authentication\<close> of
  the configuration. The concrete run is the provider \<open>basicProvider\<close>, configured with
  \<^verbatim>\<open>authentication: "basic"\<close>.\<close>

theorem provider_refresh_sends_body_credentials:
  assumes "FetchToken r \<in> set (snd (providerRefreshAccessToken w now c refreshTok))"
  shows "req_headers r ''authorization'' = None
     \<and> sp_get (req_body r) ''client_id'' = Some (clientId c)
     \<and> sp_get (req_body r) ''client_secret'' = Some (clientSecret c)"
proof -
  let ?opts = "\<lparr>po_clientId = clientId c, po_clientSecret = clientSecret c,
                 po_redirectURI = None\<rparr>"
  from assms obtain e where
    "r = refreshRequest w refreshTok ?opts
           \<lparr>rp_tokenEndpoint = e, rp_authentication = None, rp_extraParams = None\<rparr>"
    by (auto simp: providerRefreshAccessToken_def refreshAccessToken_def Let_def
             split: if_splits option.splits sum.splits prod.splits)
  then show ?thesis
    using refreshRequest_post [of "\<lparr>rp_tokenEndpoint = e, rp_authentication = None,
                                    rp_extraParams = None\<rparr>" w refreshTok ?opts]
    by simp
qed

theorem provider_refresh_sends_body_credentials_witness:
  "cfg_authentication basicProvider = Some Basic
   \<and> (case snd (providerRefreshAccessToken sampleEnv 1700000000000 basicProvider ''rt-1'') of
         [FetchToken r] \<Rightarrow>
           req_url r = ''https://acme.test/token''
           \<and> req_headers r ''authorization'' = None
           \<and> req_body r = [(''grant_type'', ''refresh_token''), (''refresh_token'', ''rt-1''),
                           (''client_id'', ''client-1''), (''client_secret'', ''secret-1'')]
       | _ \<Rightarrow> False)"
proof -
  let ?r = "refreshRequest sampleEnv ''rt-1''
              \<lparr>po_clientId = ''client-1'', po_clientSecret = ''secret-1'', po_redirectURI = None\<rparr>
              \<lparr>rp_tokenEndpoint = ''https://acme.test/token'', rp_authentication = None,
               rp_extraParams = None\<rparr>"
  have m: "FetchToken ?r
             \<in> set (snd (providerRefreshAccessToken sampleEnv 1700000000000 basicProvider ''rt-1''))"
    by (simp add: providerRefreshAccessToken_def refreshAccessToken_def truthy_str_def
                  sample_defs Let_def)
  show ?thesis
    using provider_refresh_sends_body_credentials [OF m]
    by (simp add: model_defs sample_defs)
qed

end
